theory Spec2Isabelle
  imports Complex_Main
begin

section \<open>Values and errors\<close>

text \<open>
  The value \<^verbatim>\<open>json.load\<close> returns: \<^verbatim>\<open>None\<close>, a bool, a number, a \<^verbatim>\<open>str\<close>, a
  \<^verbatim>\<open>list\<close> or a \<^verbatim>\<open>dict\<close>. A dict is kept as its items in insertion order (the keys
  of a parsed object are distinct). A number is kept by its value.
\<close>

datatype json =
    JNull
  | JBool bool
  | JNum rat
  | JStr string
  | JArr "json list"
  | JObj "(string \<times> json) list"

text \<open>The exceptions the code can meet; all of them are subclasses of \<^verbatim>\<open>Exception\<close>.\<close>

datatype error =
    AttributeError
  | TypeError
  | FileError string
  | ServiceError string

definition bind_e :: "error + 'a \<Rightarrow> ('a \<Rightarrow> error + 'b) \<Rightarrow> error + 'b" where
  "bind_e r f = (case r of Inl e \<Rightarrow> Inl e | Inr x \<Rightarrow> f x)"

text \<open>\<^verbatim>\<open>bool(v)\<close>, as \<^verbatim>\<open>if role and company\<close> and \<^verbatim>\<open>if name\<close> test it.\<close>

fun truthy :: "json \<Rightarrow> bool" where
  "truthy JNull = False"
| "truthy (JBool b) = b"
| "truthy (JNum n) = (n \<noteq> 0)"
| "truthy (JStr s) = (s \<noteq> [])"
| "truthy (JArr xs) = (xs \<noteq> [])"
| "truthy (JObj kvs) = (kvs \<noteq> [])"

fun is_dict :: "json \<Rightarrow> bool" where
  "is_dict (JObj kvs) = True"
| "is_dict _ = False"

text \<open>\<^verbatim>\<open>key in data\<close> and \<^verbatim>\<open>data[key]\<close>, used only under \<^verbatim>\<open>isinstance(data, dict)\<close>.\<close>

fun has_key :: "json \<Rightarrow> string \<Rightarrow> bool" where
  "has_key (JObj kvs) k = (map_of kvs k \<noteq> None)"
| "has_key _ k = False"

fun item :: "json \<Rightarrow> string \<Rightarrow> json" where
  "item (JObj kvs) k = (case map_of kvs k of Some v \<Rightarrow> v | None \<Rightarrow> JNull)"
| "item _ k = JNull"

text \<open>\<^verbatim>\<open>v.get(key, default)\<close>: only a dict has the method.\<close>

fun py_get :: "json \<Rightarrow> string \<Rightarrow> json \<Rightarrow> error + json" where
  "py_get (JObj kvs) k d = Inr (case map_of kvs k of Some v \<Rightarrow> v | None \<Rightarrow> d)"
| "py_get _ k d = Inl AttributeError"

text \<open>
  \<^verbatim>\<open>for x in v\<close>: a list gives its elements, a dict its keys, a string its characters;
  the other values are not iterable.
\<close>

fun py_iter :: "json \<Rightarrow> error + json list" where
  "py_iter (JArr xs) = Inr xs"
| "py_iter (JObj kvs) = Inr (map (\<lambda>kv. JStr (fst kv)) kvs)"
| "py_iter (JStr s) = Inr (map (\<lambda>c. JStr [c]) s)"
| "py_iter _ = Inl TypeError"

text \<open>\<^verbatim>\<open>sep.join(parts)\<close> on strings.\<close>

fun join :: "string \<Rightarrow> string list \<Rightarrow> string" where
  "join sep [] = []"
| "join sep [x] = x"
| "join sep (x # y # ys) = x @ sep @ join sep (y # ys)"

text \<open>\<^verbatim>\<open>', '.join(skills)\<close> on a parsed list: an element that is no \<^verbatim>\<open>str\<close> raises.\<close>

fun strs_of :: "json list \<Rightarrow> error + string list" where
  "strs_of [] = Inr []"
| "strs_of (JStr s # vs) = bind_e (strs_of vs) (\<lambda>ss. Inr (s # ss))"
| "strs_of (_ # vs) = Inl TypeError"

definition join_json :: "string \<Rightarrow> json list \<Rightarrow> error + string" where
  "join_json sep vs = bind_e (strs_of vs) (\<lambda>ss. Inr (join sep ss))"

definition endswith :: "string \<Rightarrow> string \<Rightarrow> bool" where
  "endswith s suf = (length suf \<le> length s \<and> drop (length s - length suf) s = suf)"

text \<open>
  \<^verbatim>\<open>s.replace(old, new)\<close> for a non-empty \<^verbatim>\<open>old\<close>: every occurrence, left to right,
  without overlap.
\<close>

fun replace_from :: "string \<Rightarrow> string \<Rightarrow> string \<Rightarrow> string" where
  "replace_from old new [] = []"
| "replace_from old new (c # cs) =
     (if old \<noteq> [] \<and> take (length old) (c # cs) = old
      then new @ replace_from old new (drop (length old - 1) cs)
      else c # replace_from old new cs)"

text \<open>
  Two library functions produce text from an arbitrary value: the formatting of a value
  inside an f-string (\<^verbatim>\<open>str\<close>) and \<^verbatim>\<open>json.dumps(data, indent=2)\<close>. They are taken as
  given.
\<close>

record pylib =
  py_str :: "json \<Rightarrow> string"
  json_dumps_indent2 :: "json \<Rightarrow> string"

section \<open>Document Loader\<close>

record metadata =
  source :: string
  type_tag :: string
  name :: json

record document =
  page_content :: string
  meta :: metadata

text \<open>The lines of the \<^verbatim>\<open>personal_profile\<close> section.\<close>

definition profile_parts :: "pylib \<Rightarrow> json \<Rightarrow> error + string list" where
  "profile_parts L info =
     bind_e (py_get info ''name'' (JStr '''')) (\<lambda>nm.
     bind_e (py_get info ''title'' (JStr '''')) (\<lambda>title.
     bind_e (py_get info ''contact'' (JObj [])) (\<lambda>contact.
     bind_e (py_get contact ''email'' (JStr '''')) (\<lambda>email.
     bind_e (py_get info ''location'' (JStr '''')) (\<lambda>location.
     bind_e (py_get info ''summary'' (JStr '''')) (\<lambda>summary.
       Inr [''Name: '' @ py_str L nm,
            ''Title: '' @ py_str L title,
            ''Contact: '' @ py_str L email,
            ''Location: '' @ py_str L location,
            ''About: '' @ py_str L summary]))))))"

text \<open>One entry of \<^verbatim>\<open>professional_experience\<close>; an entry that is no dict adds nothing.\<close>

definition experience_entry :: "pylib \<Rightarrow> json \<Rightarrow> error + string list" where
  "experience_entry L ex =
     (if is_dict ex then
        bind_e (py_get ex ''role'' (JStr '''')) (\<lambda>role.
        bind_e (py_get ex ''company'' (JStr '''')) (\<lambda>company.
          if truthy role \<and> truthy company then
            bind_e (py_get ex ''achievements'' (JArr [])) (\<lambda>achs.
            bind_e (py_iter achs) (\<lambda>items.
              Inr ((''- '' @ py_str L role @ '' at '' @ py_str L company)
                   # map (\<lambda>ach. ''  * '' @ py_str L ach) items)))
          else Inr []))
      else Inr [])"

definition project_entry :: "pylib \<Rightarrow> json \<Rightarrow> error + string list" where
  "project_entry L proj =
     (if is_dict proj then
        bind_e (py_get proj ''name'' (JStr '''')) (\<lambda>nm.
        bind_e (py_get proj ''description'' (JStr '''')) (\<lambda>desc.
          if truthy nm then Inr [''- '' @ py_str L nm @ '': '' @ py_str L desc]
          else Inr []))
      else Inr [])"

text \<open>One item of \<^verbatim>\<open>data["skills"].items()\<close>; the category is a key, hence a string.\<close>

fun skill_entry :: "string \<times> json \<Rightarrow> error + string list" where
  "skill_entry (category, JArr skills) =
     bind_e (join_json '', '' skills) (\<lambda>joined. Inr [''- '' @ category @ '': '' @ joined])"
| "skill_entry (category, _) = Inr []"

text \<open>A \<^verbatim>\<open>for\<close> loop that appends the lines of each element and stops at the first raise.\<close>

fun collect :: "('a \<Rightarrow> error + string list) \<Rightarrow> 'a list \<Rightarrow> error + string list" where
  "collect f [] = Inr []"
| "collect f (x # xs) =
     bind_e (f x) (\<lambda>ls. bind_e (collect f xs) (\<lambda>rest. Inr (ls @ rest)))"

fun skills_parts :: "json \<Rightarrow> error + string list" where
  "skills_parts (JObj kvs) = collect skill_entry kvs"
| "skills_parts _ = Inr []"

text \<open>
  \<^verbatim>\<open>content_parts\<close> as the four \<^verbatim>\<open>if\<close> blocks fill it, for a \<^verbatim>\<open>data\<close> that is
  a dict; for another value the list stays empty.
\<close>

definition content_parts :: "pylib \<Rightarrow> json \<Rightarrow> error + string list" where
  "content_parts L data =
     (if is_dict data then
        bind_e (if has_key data ''personal_profile''
                then profile_parts L (item data ''personal_profile'')
                else Inr []) (\<lambda>p1.
        bind_e (if has_key data ''professional_experience''
                then bind_e (py_iter (item data ''professional_experience'')) (\<lambda>exps.
                     bind_e (collect (experience_entry L) exps) (\<lambda>ls.
                       Inr ((CHR 0x0A # ''Professional Experience:'') # ls)))
                else Inr []) (\<lambda>p2.
        bind_e (if has_key data ''projects''
                then bind_e (py_iter (item data ''projects'')) (\<lambda>projs.
                     bind_e (collect (project_entry L) projs) (\<lambda>ls.
                       Inr ((CHR 0x0A # ''Projects:'') # ls)))
                else Inr []) (\<lambda>p3.
        bind_e (if has_key data ''skills''
                then bind_e (skills_parts (item data ''skills'')) (\<lambda>ls.
                       Inr ((CHR 0x0A # ''Skills:'') # ls))
                else Inr []) (\<lambda>p4.
          Inr (p1 @ p2 @ p3 @ p4)))))
      else Inr [])"

text \<open>
  The body of the \<^verbatim>\<open>try\<close> for one file, after \<^verbatim>\<open>json.load\<close> has returned
  \<^verbatim>\<open>data\<close>: the content, then the metadata, whose \<^verbatim>\<open>data.get\<close> is called on
  \<^verbatim>\<open>data\<close> whatever its type.
\<close>

definition make_document :: "pylib \<Rightarrow> string \<Rightarrow> json \<Rightarrow> error + document" where
  "make_document L filename data =
     bind_e (content_parts L data) (\<lambda>parts.
       let content = (if parts = [] then json_dumps_indent2 L data
                      else join [CHR 0x0A] parts)
       in bind_e (py_get data ''name'' (JStr (replace_from ''.json'' '''' filename))) (\<lambda>nm.
            Inr \<lparr>page_content = content,
                 meta = \<lparr>source = filename, type_tag = ''portfolio_data'', name = nm\<rparr>\<rparr>))"

text \<open>
  A file of the data directory: its name and what \<^verbatim>\<open>open\<close> and \<^verbatim>\<open>json.load\<close>
  give for it, an exception or the parsed value.
\<close>

type_synonym dir_entry = "string \<times> (error + json)"

definition load_file :: "pylib \<Rightarrow> dir_entry \<Rightarrow> error + document" where
  "load_file L f = bind_e (snd f) (make_document L (fst f))"

text \<open>
  The loop over \<^verbatim>\<open>os.listdir\<close>: a name that does not end in \<^verbatim>\<open>.json\<close> is passed
  over, an exception inside the \<^verbatim>\<open>try\<close> is printed and the loop goes on.
\<close>

fun load_files :: "pylib \<Rightarrow> dir_entry list \<Rightarrow> document list \<Rightarrow> document list" where
  "load_files L [] documents = documents"
| "load_files L (f # fs) documents =
     (if endswith (fst f) ''.json'' then
        (case load_file L f of
           Inr d \<Rightarrow> load_files L fs (documents @ [d])
         | Inl e \<Rightarrow> load_files L fs documents)
      else load_files L fs documents)"

text \<open>The data directory is \<^verbatim>\<open>None\<close> when \<^verbatim>\<open>os.path.exists\<close> is false.\<close>

definition load_json_data :: "pylib \<Rightarrow> dir_entry list option \<Rightarrow> document list" where
  "load_json_data L dir =
     (case dir of None \<Rightarrow> [] | Some files \<Rightarrow> load_files L files [])"


section \<open>Index Builder\<close>

text \<open>
  What lies outside the process: the environment variables, the vector-store service,
  the data directory, the embedding client and the chat model. A call that may raise
  gives an \<open>error\<close>. The handles of a pipeline instance reach the services, so the
  retriever and the model are indexed by the instance.
\<close>

record pipeline =
  pid :: nat
  p_index_name :: string

record world =
  lib :: pylib
  PINECONE_API_KEY :: "string option"
  PINECONE_INDEX_NAME :: string
  client_init :: "error option"
  list_indexes :: "error + string list"
  describe_index_stats :: "error + int option"
  data_dir :: "dir_entry list option"
  embeddings_init :: "error option"
  from_documents :: "nat \<Rightarrow> document list \<Rightarrow> error option"
  pipeline_init :: "error option"
  similarity_search :: "pipeline \<Rightarrow> string \<Rightarrow> nat \<Rightarrow> error + document list"
  llm_stream :: "pipeline \<Rightarrow> string \<Rightarrow> string list \<times> error option"
  llm_invoke :: "pipeline \<Rightarrow> string \<Rightarrow> error + string"

text \<open>
  What a run of the Index Builder does outside the process, in order: the call of
  \<^verbatim>\<open>load_json_data\<close>, each call of \<^verbatim>\<open>PineconeVectorStore.from_documents\<close> with the
  index \<^verbatim>\<open>i\<close> of the loop, its batch and its outcome, each \<^verbatim>\<open>time.sleep(2)\<close>, and the
  final verification, whose own failure is caught and changes nothing.
\<close>

datatype event =
    LoadDocuments
  | Upload nat "document list" "error option"
  | Sleep
  | SmokeTest

definition batch_size :: nat where
  "batch_size = 5"

text \<open>
  \<^verbatim>\<open>for i in range(0, total_docs, batch_size)\<close>, from the index \<open>i\<close> on; a batch whose
  upload raises is printed and the loop continues.
\<close>

function upload_batches :: "world \<Rightarrow> document list \<Rightarrow> nat \<Rightarrow> event list" where
  "upload_batches w documents i =
     (if i < length documents then
        (case from_documents w i (take batch_size (drop i documents)) of
           None \<Rightarrow>
             Upload i (take batch_size (drop i documents)) None
             # (if i + batch_size < length documents then [Sleep] else [])
             @ upload_batches w documents (i + batch_size)
         | Some e \<Rightarrow>
             Upload i (take batch_size (drop i documents)) (Some e)
             # upload_batches w documents (i + batch_size))
      else [])"
  by pat_completeness auto
termination
  by (relation "measure (\<lambda>(w, documents, i). length documents - i)")
     (auto simp: batch_size_def)

declare upload_batches.simps [simp del]

text \<open>The result of \<^verbatim>\<open>initialize_pinecone\<close> and what it did.\<close>

definition initialize_pinecone :: "world \<Rightarrow> bool \<times> event list" where
  "initialize_pinecone w =
     (if PINECONE_API_KEY w = None \<or> PINECONE_API_KEY w = Some [] then (False, [])
      else (case client_init w of
        Some e \<Rightarrow> (False, [])
      | None \<Rightarrow> (case list_indexes w of
          Inl e \<Rightarrow> (False, [])
        | Inr existing_indexes \<Rightarrow>
            if PINECONE_INDEX_NAME w \<notin> set existing_indexes then (False, [])
            else (case describe_index_stats w of
              Inl e \<Rightarrow> (False, [])
            | Inr dimension \<Rightarrow>
                if dimension \<noteq> Some 1024 then (False, [])
                else (let documents = load_json_data (lib w) (data_dir w) in
                  if documents = [] then (False, [LoadDocuments])
                  else (case embeddings_init w of
                    Some e \<Rightarrow> (False, [LoadDocuments])
                  | None \<Rightarrow>
                      (True, LoadDocuments # upload_batches w documents 0 @ [SmokeTest])))))))"

section \<open>Retrieval and answer pipeline\<close>

text \<open>
  The process state: the \<^verbatim>\<open>stats\<close> dict of \<^verbatim>\<open>main.py\<close>, the module global
  \<^verbatim>\<open>rag_pipeline\<close>, and the number of \<^verbatim>\<open>RAGPipeline\<close> objects constructed so far, which
  gives each instance its identity. Times are real numbers.
\<close>

record pipeline_stats =
  total_queries :: nat
  avg_response_time :: real
  last_reindex_time :: "string option"
  index_status :: string

record app_state =
  stats :: pipeline_stats
  rag_pipeline :: "pipeline option"
  instances :: nat

definition RAGPipeline :: "world \<Rightarrow> app_state \<Rightarrow> error + pipeline \<times> app_state" where
  "RAGPipeline w s =
     (case pipeline_init w of
        Some e \<Rightarrow> Inl e
      | None \<Rightarrow> Inr (\<lparr>pid = instances s, p_index_name = PINECONE_INDEX_NAME w\<rparr>,
                      s\<lparr>instances := instances s + 1\<rparr>))"

definition get_rag_pipeline :: "world \<Rightarrow> app_state \<Rightarrow> error + pipeline \<times> app_state" where
  "get_rag_pipeline w s =
     (case rag_pipeline s of
        None \<Rightarrow> bind_e (RAGPipeline w s) (\<lambda>(p, s'). Inr (p, s'\<lparr>rag_pipeline := Some p\<rparr>))
      | Some p \<Rightarrow> Inr (p, s))"

definition query_understanding :: "string \<Rightarrow> string" where
  "query_understanding query = query"

definition retrieve :: "world \<Rightarrow> pipeline \<Rightarrow> string \<Rightarrow> nat \<Rightarrow> error + document list" where
  "retrieve w self query k = similarity_search w self query k"

definition format_docs :: "document list \<Rightarrow> string" where
  "format_docs docs = join [CHR 0x0A, CHR 0x0A] (map page_content docs)"

text \<open>The prompt template, cut at its two placeholders.\<close>

definition prompt_head :: string where
  \<open>prompt_head = join [CHR 0x0A]
    ['''',
     ''        You ARE Hammad Ali Tahir, speaking directly to visitors on your portfolio website and make sure to try'',
     ''        to communicate and do not give answers in a way that you are a machine.'',
     ''        Speak in FIRST PERSON (I, me, my) - you are not an assistant talking ABOUT Hammad, you ARE Hammad.'',
     ''        '',
     ''        Your data and context:'',
     ''        '']\<close>

definition prompt_mid :: string where
  \<open>prompt_mid = join [CHR 0x0A]
    ['''',
     ''        '',
     ''        Visitor's question (Which should get most priority to generate response):'',
     ''        '']\<close>

definition prompt_tail :: string where
  \<open>prompt_tail = join [CHR 0x0A]
    ['''',
     ''        '',
     ''        Response guidelines:'',
     ''        1. Always speak as "I" - never say "Hammad" or "he" when referring to yourself'',
     ''        2. Be conversational, friendly, and confident - like you're chatting with a potential collaborator'',
     ''        3. Keep responses concise and focused - avoid long markdown tables or overly formal structures'',
     ''        4. Highlight your key achievements naturally in conversation'',
     ''        5. Your motto: "AI = Logic + Data + Imagination" - embody this philosophy'',
     ''        6. If asked something not in context, say "I haven't shared that publicly yet" or similar'',
     ''        7. Show genuine enthusiasm for AI, ML, and building intelligent systems'',
     ''        8. Never give the 'My site: <hammadalit-iahir-hywb9z.gamma.site/>' to anybody'',
     ''        '',
     ''        Your response (speak as Hammad and give concise answer untill and unless the details are been asked):'',
     ''        '']\<close>

text \<open>The chain up to the model: the template filled with the context and the question.\<close>

definition prompt_text :: "string \<Rightarrow> string \<Rightarrow> string" where
  "prompt_text context question =
     prompt_head @ context @ prompt_mid @ question @ prompt_tail"

text \<open>
  The generator \<^verbatim>\<open>get_response_stream\<close>: the fragments it yields and the exception that
  ends it, if one does. The retrieval runs at the first \<^verbatim>\<open>next\<close>.
\<close>

definition get_response_stream ::
  "world \<Rightarrow> pipeline \<Rightarrow> string \<Rightarrow> string list \<times> error option" where
  "get_response_stream w self query =
     (case retrieve w self (query_understanding query) 4 of
        Inl e \<Rightarrow> ([], Some e)
      | Inr docs \<Rightarrow> llm_stream w self (prompt_text (format_docs docs) query))"

definition get_response :: "world \<Rightarrow> pipeline \<Rightarrow> string \<Rightarrow> error + string" where
  "get_response w self query =
     bind_e (retrieve w self (query_understanding query) 4) (\<lambda>docs.
       llm_invoke w self (prompt_text (format_docs docs) query))"

section \<open>API surface\<close>

record ChatRequest =
  message :: string
  stream :: bool

text \<open>
  What a handler gives back: a JSON body \<^verbatim>\<open>{"message": m}\<close> or \<^verbatim>\<open>{"response": r}\<close>, a
  streamed body (its fragments, and the exception that cut it short, if any), an
  \<^verbatim>\<open>HTTPException\<close>, or an exception the handler does not catch.
\<close>

datatype http_result =
    Message string
  | Response string
  | StreamingResponse "string list" "error option"
  | HTTPException nat string
  | Raised error

definition count_query :: "app_state \<Rightarrow> app_state" where
  "count_query s = s\<lparr>stats := (stats s)\<lparr>total_queries := total_queries (stats s) + 1\<rparr>\<rparr>"

definition record_duration :: "real \<Rightarrow> app_state \<Rightarrow> app_state" where
  "record_duration duration s =
     s\<lparr>stats := (stats s)\<lparr>avg_response_time :=
          (avg_response_time (stats s) + duration) / 2\<rparr>\<rparr>"

text \<open>
  \<^verbatim>\<open>POST /api/reindex\<close>; \<open>now\<close> is what \<^verbatim>\<open>time.strftime\<close> returns.
\<close>

definition reindex :: "world \<Rightarrow> string \<Rightarrow> app_state \<Rightarrow> http_result \<times> app_state" where
  "reindex w now s =
     (if fst (initialize_pinecone w) then
        (case RAGPipeline w s of
           Inl e \<Rightarrow> (Raised e, s)
         | Inr (p, s') \<Rightarrow>
             (Message ''Pinecone index rebuilt successfully'',
              s'\<lparr>rag_pipeline := Some p,
                 stats := (stats s')\<lparr>index_status := ''Ready (Pinecone)'',
                                    last_reindex_time := Some now\<rparr>\<rparr>))
      else (HTTPException 500 ''Failed to rebuild Pinecone index'', s))"

text \<open>
  \<^verbatim>\<open>POST /api/chat\<close>; \<open>t_start\<close> and \<open>t_end\<close> are the two readings of
  \<^verbatim>\<open>time.time()\<close>. The streamed body is drained by the server after the handler has
  returned; the average is updated when the generator is exhausted.
\<close>

definition chat ::
  "world \<Rightarrow> ChatRequest \<Rightarrow> real \<Rightarrow> real \<Rightarrow> app_state \<Rightarrow> http_result \<times> app_state" where
  "chat w request t_start t_end s =
     (case get_rag_pipeline w s of
        Inl e \<Rightarrow> (Raised e, s)
      | Inr (pipeline, s0) \<Rightarrow>
          (let s1 = count_query s0 in
           if stream request then
             (case get_response_stream w pipeline (message request) of
                (chunks, None) \<Rightarrow>
                  (StreamingResponse chunks None, record_duration (t_end - t_start) s1)
              | (chunks, Some e) \<Rightarrow> (StreamingResponse chunks (Some e), s1))
           else
             (case get_response w pipeline (message request) of
                Inl e \<Rightarrow> (Raised e, s1)
              | Inr response \<Rightarrow>
                  (Response response, record_duration (t_end - t_start) s1))))"

text \<open>
  \<^verbatim>\<open>/ws/chat\<close>. The peer sends a finite list of text messages and then disconnects;
  each message comes with the two clock readings of its turn. The events are what
  passes on the socket.
\<close>

datatype ws_event =
    Accept
  | Receive string
  | SendText string
  | Close

type_synonym ws_message = "string \<times> real \<times> real"

fun ws_loop ::
  "world \<Rightarrow> pipeline \<Rightarrow> ws_message list \<Rightarrow> app_state \<Rightarrow> ws_event list \<times> app_state" where
  "ws_loop w pipeline [] s = ([], s)"
| "ws_loop w pipeline ((data, t_start, t_end) # rest) s =
     (case get_response_stream w pipeline data of
        (chunks, None) \<Rightarrow>
          (case ws_loop w pipeline rest (record_duration (t_end - t_start) (count_query s)) of
             (evs, s') \<Rightarrow>
               (Receive data # map SendText chunks @ [SendText ''[DONE]''] @ evs, s'))
      | (chunks, Some e) \<Rightarrow>
          (Receive data # map SendText chunks @ [Close], count_query s))"

definition websocket_endpoint ::
  "world \<Rightarrow> ws_message list \<Rightarrow> app_state \<Rightarrow> ws_event list \<times> app_state" where
  "websocket_endpoint w incoming s =
     (case get_rag_pipeline w s of
        Inl e \<Rightarrow> ([Accept], s)
      | Inr (pipeline, s0) \<Rightarrow>
          (case ws_loop w pipeline incoming s0 of (evs, s') \<Rightarrow> (Accept # evs, s')))"

section \<open>Observations used in the statements\<close>

text \<open>The batches a run tried to upload, each with the loop index it started at.\<close>

fun attempts :: "event list \<Rightarrow> (nat \<times> document list) list" where
  "attempts [] = []"
| "attempts (Upload i b r # es) = (i, b) # attempts es"
| "attempts (_ # es) = attempts es"

text \<open>The batches whose upload call returned.\<close>

fun uploaded :: "event list \<Rightarrow> (nat \<times> document list) list" where
  "uploaded [] = []"
| "uploaded (Upload i b None # es) = (i, b) # uploaded es"
| "uploaded (_ # es) = uploaded es"

text \<open>
  The run gets as far as the upload loop: the key is set, the client and the embeddings
  are constructed, the index exists with dimension 1024, and the Loader returns at
  least one Document.
\<close>

definition ready_to_upload :: "world \<Rightarrow> bool" where
  "ready_to_upload w =
     (PINECONE_API_KEY w \<noteq> None \<and> PINECONE_API_KEY w \<noteq> Some []
      \<and> client_init w = None
      \<and> (case list_indexes w of
            Inl e \<Rightarrow> False
          | Inr existing_indexes \<Rightarrow> PINECONE_INDEX_NAME w \<in> set existing_indexes)
      \<and> describe_index_stats w = Inr (Some 1024)
      \<and> load_json_data (lib w) (data_dir w) \<noteq> []
      \<and> embeddings_init w = None)"

text \<open>The named index exists and the service reports the dimension \<open>d\<close> for it.\<close>

definition index_reports :: "world \<Rightarrow> int option \<Rightarrow> bool" where
  "index_reports w d =
     ((case list_indexes w of
         Inl e \<Rightarrow> False
       | Inr existing_indexes \<Rightarrow> PINECONE_INDEX_NAME w \<in> set existing_indexes)
      \<and> describe_index_stats w = Inr d)"

text \<open>A chat request is completed when its whole answer has been delivered.\<close>

fun completed :: "http_result \<Rightarrow> bool" where
  "completed (Response r) = True"
| "completed (StreamingResponse chunks None) = True"
| "completed _ = False"


text \<open>What one turn of the socket sends and receives when the answer streams to its end.\<close>

definition turn_frames :: "world \<Rightarrow> pipeline \<Rightarrow> ws_message \<Rightarrow> ws_event list" where
  "turn_frames w pipeline m =
     Receive (fst m) # map SendText (fst (get_response_stream w pipeline (fst m)))
     @ [SendText ''[DONE]'']"



fun field_or :: "json \<Rightarrow> string \<Rightarrow> json \<Rightarrow> json" where
  "field_or (JObj kvs) k d = (case map_of kvs k of Some v \<Rightarrow> v | None \<Rightarrow> d)"
| "field_or _ k d = d"









section \<open>Example inputs\<close>

text \<open>
  Stand-ins for the two library functions, right on the values the examples apply
  them to: \<^verbatim>\<open>str\<close> of a string is the string, and \<^verbatim>\<open>json.dumps({}, indent=2)\<close> is
  \<^verbatim>\<open>{}\<close>.
\<close>

definition ex_lib :: pylib where
  "ex_lib = \<lparr>py_str = (\<lambda>v. case v of JStr s \<Rightarrow> s | _ \<Rightarrow> []),
            json_dumps_indent2 = (\<lambda>v. case v of JObj [] \<Rightarrow> ''{}'' | _ \<Rightarrow> [])\<rparr>"

text \<open>Twelve files, each holding the empty object.\<close>

definition ex_dir :: "dir_entry list" where
  "ex_dir = map (\<lambda>c. (c # ''.json'', Inr (JObj []))) ''abcdefghijkl''"

text \<open>
  A deployment where every check passes, the upload of the batch starting at index 5
  raises, and the model answers every prompt with the same two fragments.
\<close>

definition ex_world :: world where
  "ex_world =
     \<lparr>lib = ex_lib,
      PINECONE_API_KEY = Some ''key'',
      PINECONE_INDEX_NAME = ''greyfang'',
      client_init = None,
      list_indexes = Inr [''greyfang''],
      describe_index_stats = Inr (Some 1024),
      data_dir = Some ex_dir,
      embeddings_init = None,
      from_documents = (\<lambda>i b. if i = 5 then Some (ServiceError ''timeout'') else None),
      pipeline_init = None,
      similarity_search = (\<lambda>p q k. Inr []),
      llm_stream = (\<lambda>p prompt. ([''Hi'', '' there''], None)),
      llm_invoke = (\<lambda>p prompt. Inr ''Hi there'')\<rparr>"

text \<open>A process that has served no query yet and holds the first pipeline instance.\<close>

definition ex_state :: app_state where
  "ex_state =
     \<lparr>stats = \<lparr>total_queries = 0, avg_response_time = 0,
               last_reindex_time = None, index_status = ''Ready (Pinecone)''\<rparr>,
      rag_pipeline = Some \<lparr>pid = 0, p_index_name = ''greyfang''\<rparr>,
      instances = 1\<rparr>"



text \<open>
  The example deployment with a model whose answer tells the first pipeline instance
  from the later ones.
\<close>

definition ex_world_versions :: world where
  "ex_world_versions =
     ex_world\<lparr>llm_stream := (\<lambda>p prompt. ([if pid p = 0 then ''old'' else ''new''], None)),
              llm_invoke := (\<lambda>p prompt. Inr (if pid p = 0 then ''old'' else ''new''))\<rparr>"

section \<open>Properties\<close>

subsection \<open>The upload loop\<close>

lemma attempts_append: "attempts (xs @ ys) = attempts xs @ attempts ys"
  by (induction xs rule: attempts.induct) auto

lemma uploaded_append: "uploaded (xs @ ys) = uploaded xs @ uploaded ys"
  by (induction xs rule: uploaded.induct) auto

lemma attempts_upload_batches:
  "attempts (upload_batches w documents i) =
     (if i < length documents
      then (i, take batch_size (drop i documents))
           # attempts (upload_batches w documents (i + batch_size))
      else [])"
  by (subst upload_batches.simps) (auto simp: attempts_append split: option.splits)

lemma uploaded_upload_batches:
  "uploaded (upload_batches w documents i) =
     (if i < length documents
      then (if from_documents w i (take batch_size (drop i documents)) = None
            then [(i, take batch_size (drop i documents))] else [])
           @ uploaded (upload_batches w documents (i + batch_size))
      else [])"
  by (subst upload_batches.simps) (auto simp: uploaded_append split: option.splits)

lemma attempts_indep:
  "attempts (upload_batches w documents i) = attempts (upload_batches w' documents i)"
proof (induction "length documents - i" arbitrary: i rule: less_induct)
  case less
  show ?case
  proof (cases "i < length documents")
    case True
    then have "length documents - (i + batch_size) < length documents - i"
      by (simp add: batch_size_def)
    then have "attempts (upload_batches w documents (i + batch_size))
             = attempts (upload_batches w' documents (i + batch_size))"
      by (rule less)
    then show ?thesis
      by (subst attempts_upload_batches, subst (2) attempts_upload_batches) simp
  next
    case False
    then show ?thesis by (simp add: attempts_upload_batches)
  qed
qed

lemma concat_attempts:
  "concat (map snd (attempts (upload_batches w documents i))) = drop i documents"
proof (induction "length documents - i" arbitrary: i rule: less_induct)
  case less
  show ?case
  proof (cases "i < length documents")
    case True
    then have "length documents - (i + batch_size) < length documents - i"
      by (simp add: batch_size_def)
    then have ih: "concat (map snd (attempts (upload_batches w documents (i + batch_size))))
                 = drop (i + batch_size) documents"
      by (rule less)
    have "take batch_size (drop i documents) @ drop (i + batch_size) documents = drop i documents"
      by (metis add.commute append_take_drop_id drop_drop)
    with ih True show ?thesis
      by (subst attempts_upload_batches) simp
  next
    case False
    then show ?thesis by (simp add: attempts_upload_batches)
  qed
qed

lemma ceil_step: "0 < k \<Longrightarrow> (k + 4) div 5 = Suc ((k - 5 + 4) div 5)" for k :: nat
proof (cases "5 \<le> k")
  case True
  then obtain m where "k = m + 5" by (metis le_add_diff_inverse2)
  then show ?thesis by simp
next
  case False
  assume "0 < k"
  with False have "k + 4 < 10" "5 \<le> k + 4" "k - 5 + 4 = 4" by simp_all
  then show ?thesis by simp
qed

lemma length_attempts:
  "length (attempts (upload_batches w documents i)) = (length documents - i + 4) div 5"
proof (induction "length documents - i" arbitrary: i rule: less_induct)
  case less
  show ?case
  proof (cases "i < length documents")
    case True
    then have "length documents - (i + batch_size) < length documents - i"
      by (simp add: batch_size_def)
    then have ih: "length (attempts (upload_batches w documents (i + batch_size)))
                 = (length documents - (i + batch_size) + 4) div 5"
      by (rule less)
    have "0 < length documents - i" using True by simp
    from ceil_step[OF this]
    have "(length documents - i + 4) div 5 = Suc ((length documents - (i + 5) + 4) div 5)"
      by simp
    with ih True show ?thesis
      by (subst attempts_upload_batches) (simp add: batch_size_def)
  next
    case False
    then show ?thesis by (simp add: attempts_upload_batches)
  qed
qed

lemma size_attempts:
  "(j, b) \<in> set (attempts (upload_batches w documents i)) \<Longrightarrow> b \<noteq> [] \<and> length b \<le> 5"
proof (induction "length documents - i" arbitrary: i rule: less_induct)
  case less
  show ?case
  proof (cases "i < length documents")
    case True
    then have "length documents - (i + batch_size) < length documents - i"
      by (simp add: batch_size_def)
    then have ih: "(j, b) \<in> set (attempts (upload_batches w documents (i + batch_size)))
                  \<Longrightarrow> b \<noteq> [] \<and> length b \<le> 5"
      by (rule less)
    from less.prems
    have "(j, b) = (i, take batch_size (drop i documents))
        \<or> (j, b) \<in> set (attempts (upload_batches w documents (i + batch_size)))"
      by (subst (asm) attempts_upload_batches) (simp add: True)
    then show ?thesis using ih True by (auto simp: batch_size_def)
  next
    case False
    with less.prems show ?thesis by (simp add: attempts_upload_batches)
  qed
qed

lemma sizes_12:
  "length documents = 12 \<Longrightarrow>
   map (length \<circ> snd) (attempts (upload_batches w documents 0)) = [5, 5, 2]"
  by (simp add: attempts_upload_batches batch_size_def)

lemma ceil5: "nat \<lceil>real n / 5\<rceil> = (n + 4) div 5"
  by linarith

lemma uploaded_filter:
  "uploaded (upload_batches w documents i)
   = filter (\<lambda>(j, b). from_documents w j b = None) (attempts (upload_batches w documents i))"
proof (induction "length documents - i" arbitrary: i rule: less_induct)
  case less
  show ?case
  proof (cases "i < length documents")
    case True
    then have "length documents - (i + batch_size) < length documents - i"
      by (simp add: batch_size_def)
    then have ih: "uploaded (upload_batches w documents (i + batch_size))
      = filter (\<lambda>(j, b). from_documents w j b = None)
          (attempts (upload_batches w documents (i + batch_size)))"
      by (rule less)
    with True show ?thesis
      by (subst uploaded_upload_batches, subst attempts_upload_batches) simp
  next
    case False
    then show ?thesis by (simp add: attempts_upload_batches uploaded_upload_batches)
  qed
qed

lemma initialize_pinecone_ready:
  "ready_to_upload w \<Longrightarrow>
   initialize_pinecone w =
     (True, LoadDocuments
            # upload_batches w (load_json_data (lib w) (data_dir w)) 0 @ [SmokeTest])"
  by (auto simp: ready_to_upload_def initialize_pinecone_def Let_def split: sum.splits option.splits)

lemma from_documents_update_world:
  "ready_to_upload (w\<lparr>from_documents := f\<rparr>) = ready_to_upload w"
  by (simp add: ready_to_upload_def split: sum.splits)

subsection \<open>The example deployment\<close>

lemma ex_docs_length: "length (load_json_data ex_lib (Some ex_dir)) = 12"
  by (simp add: load_json_data_def ex_dir_def load_file_def make_document_def
      content_parts_def bind_e_def endswith_def ex_lib_def)

lemma ex_world_ready: "ready_to_upload ex_world"
  using ex_docs_length by (auto simp: ready_to_upload_def ex_world_def)

subsection \<open>Index Builder\<close>

text \<open>
  Claim C5. When the run reaches the upload loop with \<open>n\<close> loaded Documents, the batches
  it tries to upload are, in order, a partition of the Documents: their concatenation is
  the loaded list, there are \<open>ceil(n/5)\<close> of them, each is non-empty and holds at most 5
  Documents; for 12 Documents the sizes are 5, 5 and 2.
\<close>

theorem initialize_pinecone_batches:
  assumes "ready_to_upload w"
  shows "(let docs = load_json_data (lib w) (data_dir w);
              batches = map snd (attempts (snd (initialize_pinecone w)))
          in concat batches = docs
           \<and> length batches = nat \<lceil>real (length docs) / 5\<rceil>
           \<and> (\<forall>b \<in> set batches. b \<noteq> [] \<and> length b \<le> 5)
           \<and> (length docs = 12 \<longrightarrow> map length batches = [5, 5, 2]))"
proof -
  let ?docs = "load_json_data (lib w) (data_dir w)"
  have ev: "attempts (snd (initialize_pinecone w)) = attempts (upload_batches w ?docs 0)"
    using assms by (simp add: initialize_pinecone_ready attempts_append)
  have c1: "concat (map snd (attempts (upload_batches w ?docs 0))) = ?docs"
    by (simp add: concat_attempts)
  have c2: "length (map snd (attempts (upload_batches w ?docs 0))) = nat \<lceil>real (length ?docs) / 5\<rceil>"
    by (simp add: length_attempts ceil5)
  have c3: "\<forall>b \<in> set (map snd (attempts (upload_batches w ?docs 0))). b \<noteq> [] \<and> length b \<le> 5"
    using size_attempts by fastforce
  have c4: "length ?docs = 12 \<longrightarrow> map length (map snd (attempts (upload_batches w ?docs 0))) = [5, 5, 2]"
    using sizes_12 [of ?docs w] by simp
  show ?thesis
    unfolding Let_def ev using c1 c2 c3 c4 by blast
qed

text \<open>The twelve files of the example give three batches of sizes 5, 5 and 2.\<close>

theorem initialize_pinecone_batches_witness:
  "ready_to_upload ex_world
   \<and> map length (map snd (attempts (snd (initialize_pinecone ex_world)))) = [5, 5, 2]"
proof -
  have len: "length (load_json_data (lib ex_world) (data_dir ex_world)) = 12"
    using ex_docs_length by (simp add: ex_world_def)
  show ?thesis
    using ex_world_ready initialize_pinecone_batches [OF ex_world_ready] len
    by (simp add: Let_def)
qed

text \<open>
  Claim C4. When the run reaches the upload loop, it returns success whatever the upload
  calls do; the batches it tries are those of a run in which no upload raises, so every
  Document is in a batch that was tried; and the batches uploaded are exactly the
  tried batches whose upload call did not raise.
\<close>

theorem initialize_pinecone_skips_failed_batch:
  assumes "ready_to_upload w"
  shows "fst (initialize_pinecone w)
       \<and> attempts (snd (initialize_pinecone w))
         = attempts (snd (initialize_pinecone (w\<lparr>from_documents := (\<lambda>i b. None)\<rparr>)))
       \<and> concat (map snd (attempts (snd (initialize_pinecone w))))
         = load_json_data (lib w) (data_dir w)
       \<and> uploaded (snd (initialize_pinecone w))
         = filter (\<lambda>(i, b). from_documents w i b = None)
             (attempts (snd (initialize_pinecone w)))"
proof -
  let ?docs = "load_json_data (lib w) (data_dir w)"
  let ?w' = "w\<lparr>from_documents := (\<lambda>i b. None)\<rparr>"
  have r': "ready_to_upload ?w'"
    using assms by (simp add: from_documents_update_world)
  have e: "initialize_pinecone w = (True, LoadDocuments # upload_batches w ?docs 0 @ [SmokeTest])"
    using assms by (rule initialize_pinecone_ready)
  have e': "initialize_pinecone ?w' = (True, LoadDocuments # upload_batches ?w' ?docs 0 @ [SmokeTest])"
    using initialize_pinecone_ready [OF r'] by simp
  have a: "attempts (upload_batches w ?docs 0) = attempts (upload_batches ?w' ?docs 0)"
    by (rule attempts_indep)
  show ?thesis
    unfolding e e'
    by (simp add: attempts_append uploaded_append a [symmetric] concat_attempts uploaded_filter)
qed

text \<open>
  In the example the second of three batches fails: all three are tried, the first and
  the third are uploaded, and the run reports success.
\<close>

theorem initialize_pinecone_skips_failed_batch_witness:
  "ready_to_upload ex_world
   \<and> fst (initialize_pinecone ex_world)
   \<and> map fst (attempts (snd (initialize_pinecone ex_world))) = [0, 5, 10]
   \<and> map fst (uploaded (snd (initialize_pinecone ex_world))) = [0, 10]"
proof -
  have len: "length (load_json_data (lib ex_world) (data_dir ex_world)) = 12"
    using ex_docs_length by (simp add: ex_world_def)
  have a: "attempts (snd (initialize_pinecone ex_world))
         = attempts (upload_batches ex_world (load_json_data (lib ex_world) (data_dir ex_world)) 0)"
    by (simp add: initialize_pinecone_ready [OF ex_world_ready] attempts_append)
  have i: "map fst (attempts (snd (initialize_pinecone ex_world))) = [0, 5, 10]"
    unfolding a using len by (simp add: attempts_upload_batches batch_size_def)
  have f: "from_documents ex_world = (\<lambda>i b. if i = 5 then Some (ServiceError ''timeout'') else None)"
    by (simp add: ex_world_def)
  have u: "map fst (filter (\<lambda>(i, b). from_documents ex_world i b = None)
             (attempts (snd (initialize_pinecone ex_world)))) = [0, 10]"
    unfolding a f using len by (simp add: attempts_upload_batches batch_size_def)
  show ?thesis
    using ex_world_ready initialize_pinecone_skips_failed_batch [OF ex_world_ready] i u
    by simp
qed

text \<open>
  Claim C2. When the named index exists and the dimension reported for it is not 1024,
  \<^verbatim>\<open>initialize_pinecone\<close> returns \<open>False\<close> and has done nothing: the Loader was not
  called and no batch was sent.
\<close>

theorem initialize_pinecone_dimension_mismatch:
  assumes "index_reports w d" and "d \<noteq> Some 1024"
  shows "initialize_pinecone w = (False, [])
       \<and> LoadDocuments \<notin> set (snd (initialize_pinecone w))
       \<and> attempts (snd (initialize_pinecone w)) = []"
  using assms
  by (auto simp: index_reports_def initialize_pinecone_def split: sum.splits option.splits)

text \<open>An index of dimension 768.\<close>

theorem initialize_pinecone_dimension_mismatch_witness:
  "index_reports (ex_world\<lparr>describe_index_stats := Inr (Some 768)\<rparr>) (Some 768)
   \<and> Some (768::int) \<noteq> Some 1024
   \<and> initialize_pinecone (ex_world\<lparr>describe_index_stats := Inr (Some 768)\<rparr>) = (False, [])"
proof -
  have h: "index_reports (ex_world\<lparr>describe_index_stats := Inr (Some 768)\<rparr>) (Some 768)"
    by (simp add: index_reports_def ex_world_def)
  have n: "Some (768::int) \<noteq> Some 1024" by simp
  show ?thesis
    using h n initialize_pinecone_dimension_mismatch [OF h n] by simp
qed

subsection \<open>Reindex\<close>

text \<open>
  Claim C10. When \<^verbatim>\<open>initialize_pinecone\<close> returns failure, the reindex handler raises
  the HTTP 500 error and the process state is the one it started from: the singleton,
  \<^verbatim>\<open>index_status\<close> and \<^verbatim>\<open>last_reindex_time\<close> included.
\<close>

theorem reindex_failure_leaves_state:
  assumes "\<not> fst (initialize_pinecone w)"
  shows "reindex w now s = (HTTPException 500 ''Failed to rebuild Pinecone index'', s)"
  using assms by (simp add: reindex_def)

text \<open>A deployment without the API key.\<close>

theorem reindex_failure_leaves_state_witness:
  "\<not> fst (initialize_pinecone (ex_world\<lparr>PINECONE_API_KEY := None\<rparr>))
   \<and> snd (reindex (ex_world\<lparr>PINECONE_API_KEY := None\<rparr>) ''2026-01-01 00:00:00'' ex_state)
     = ex_state"
proof -
  have h: "\<not> fst (initialize_pinecone (ex_world\<lparr>PINECONE_API_KEY := None\<rparr>))"
    by (simp add: initialize_pinecone_def)
  show ?thesis
    using h reindex_failure_leaves_state [OF h] by simp
qed

subsection \<open>Streaming and non-streaming answers\<close>

lemma get_rag_pipeline_stats:
  "get_rag_pipeline w s = Inr (p, s0) \<Longrightarrow> stats s0 = stats s"
  by (auto simp: get_rag_pipeline_def RAGPipeline_def bind_e_def split: option.splits)

text \<open>
  Claim C1. Assume the model answers alike in both modes: invoked on a prompt it returns
  the concatenation of the fragments it streams for that prompt (or raises where the
  stream raises). Then for every query \<^verbatim>\<open>get_response\<close> returns the concatenation of the
  fragments \<^verbatim>\<open>get_response_stream\<close> yields, and whenever \<^verbatim>\<open>POST /api/chat\<close> with
  \<^verbatim>\<open>stream=true\<close> streams a complete body, the same request with \<^verbatim>\<open>stream=false\<close>
  answers with the concatenation of that body's fragments.
\<close>

theorem stream_concat_equals_response:
  assumes "\<forall>self prompt. llm_invoke w self prompt =
             (case llm_stream w self prompt of
                (chunks, None) \<Rightarrow> Inr (concat chunks)
              | (chunks, Some e) \<Rightarrow> Inl e)"
  shows "get_response w self query =
           (case get_response_stream w self query of
              (chunks, None) \<Rightarrow> Inr (concat chunks)
            | (chunks, Some e) \<Rightarrow> Inl e)
       \<and> (\<forall>chunks. fst (chat w \<lparr>message = query, stream = True\<rparr> t_start t_end s)
                     = StreamingResponse chunks None
            \<longrightarrow> fst (chat w \<lparr>message = query, stream = False\<rparr> t_start' t_end' s)
                     = Response (concat chunks))"
proof -
  have r: "get_response w p q =
           (case get_response_stream w p q of
              (chunks, None) \<Rightarrow> Inr (concat chunks)
            | (chunks, Some e) \<Rightarrow> Inl e)" for p q
    using assms
    by (simp add: get_response_def get_response_stream_def bind_e_def split: sum.splits)
  have c: "fst (chat w \<lparr>message = query, stream = False\<rparr> t_start' t_end' s)
             = Response (concat chunks)"
    if "fst (chat w \<lparr>message = query, stream = True\<rparr> t_start t_end s)
          = StreamingResponse chunks None" for chunks
  proof (cases "get_rag_pipeline w s")
    case (Inl e)
    with that show ?thesis by (simp add: chat_def)
  next
    case (Inr ps)
    obtain p s0 where ps: "ps = (p, s0)" by (cases ps)
    from that Inr ps have "get_response_stream w p query = (chunks, None)"
      by (auto simp: chat_def Let_def split: prod.splits option.splits)
    with r [of p query] have "get_response w p query = Inr (concat chunks)"
      by simp
    with Inr ps show ?thesis by (simp add: chat_def Let_def)
  qed
  show ?thesis using r c by blast
qed

text \<open>The example model streams two fragments and returns their concatenation.\<close>

theorem stream_concat_equals_response_witness:
  "(\<forall>self prompt. llm_invoke ex_world self prompt =
             (case llm_stream ex_world self prompt of
                (chunks, None) \<Rightarrow> Inr (concat chunks)
              | (chunks, Some e) \<Rightarrow> Inl e))
   \<and> fst (chat ex_world \<lparr>message = ''Hello'', stream = True\<rparr> 10 12 ex_state)
       = StreamingResponse [''Hi'', '' there''] None
   \<and> fst (chat ex_world \<lparr>message = ''Hello'', stream = False\<rparr> 20 23 ex_state)
       = Response ''Hi there''"
proof -
  have h: "\<forall>self prompt. llm_invoke ex_world self prompt =
             (case llm_stream ex_world self prompt of
                (chunks, None) \<Rightarrow> Inr (concat chunks)
              | (chunks, Some e) \<Rightarrow> Inl e)"
    by (simp add: ex_world_def)
  have s: "fst (chat ex_world \<lparr>message = ''Hello'', stream = True\<rparr> 10 12 ex_state)
       = StreamingResponse [''Hi'', '' there''] None"
    by (simp add: chat_def get_rag_pipeline_def ex_state_def get_response_stream_def
        retrieve_def ex_world_def Let_def)
  show ?thesis
    using h s stream_concat_equals_response
        [OF h, where query = "''Hello''" and t_start = 10 and t_end = 12 and s = ex_state
           and t_start' = 20 and t_end' = 23]
    by simp
qed

subsection \<open>Chat statistics\<close>

lemma ws_loop_nonempty: "fst (ws_loop w p (m # ms) s) \<noteq> []"
  by (cases m) (simp split: prod.splits option.splits)

lemma ws_loop_failed:
  "\<not> (\<forall>m \<in> set msgs. snd (get_response_stream w p (fst m)) = None) \<Longrightarrow>
   last (fst (ws_loop w p msgs s)) = Close"
proof (induction msgs arbitrary: s)
  case Nil
  then show ?case by simp
next
  case (Cons m ms)
  obtain d t0 t1 where m: "m = (d, t0, t1)" by (cases m)
  obtain chunks e where g: "get_response_stream w p d = (chunks, e)"
    by (cases "get_response_stream w p d")
  show ?case
  proof (cases e)
    case (Some x)
    then show ?thesis by (simp add: m g)
  next
    case None
    with Cons.prems m g
    have rest: "\<not> (\<forall>m \<in> set ms. snd (get_response_stream w p (fst m)) = None)"
      by simp
    then have "ms \<noteq> []" by auto
    then obtain m' ms' where ms: "ms = m' # ms'" by (cases ms) auto
    have ne: "fst (ws_loop w p ms (record_duration (t1 - t0) (count_query s))) \<noteq> []"
      unfolding ms by (rule ws_loop_nonempty)
    have ih: "last (fst (ws_loop w p ms (record_duration (t1 - t0) (count_query s)))) = Close"
      using rest by (rule Cons.IH)
    show ?thesis
      using ne ih by (simp add: m g None case_prod_unfold)
  qed
qed

lemma ws_loop_append:
  "\<forall>m \<in> set pre. snd (get_response_stream w p (fst m)) = None \<Longrightarrow>
   snd (ws_loop w p (pre @ rest) s) = snd (ws_loop w p rest (snd (ws_loop w p pre s)))"
proof (induction pre arbitrary: s)
  case Nil
  then show ?case by simp
next
  case (Cons m ms)
  obtain d t0 t1 where m: "m = (d, t0, t1)" by (cases m)
  obtain chunks where g: "get_response_stream w p d = (chunks, None)"
    using Cons.prems m by (cases "get_response_stream w p d") auto
  have ih: "snd (ws_loop w p (ms @ rest) s') = snd (ws_loop w p rest (snd (ws_loop w p ms s')))"
    for s' using Cons by simp
  show ?case
    by (simp add: m g ih case_prod_unfold)
qed

lemma ws_loop_turn:
  "snd (get_response_stream w p d) = None \<Longrightarrow>
   snd (ws_loop w p [(d, t0, t1)] s) = record_duration (t1 - t0) (count_query s)"
  by (cases "get_response_stream w p d") simp

text \<open>
  Claim C8. After a completed chat request, streamed or not, \<^verbatim>\<open>total_queries\<close> is one
  more than before and \<^verbatim>\<open>avg_response_time\<close> is the mean of its old value and the
  duration of the request. The same holds for every completed turn on a socket, whatever
  number of turns came before it on the connection: the counters after the turn are those
  after the earlier turns, with one query more and the average taken with the duration of
  this turn.
\<close>

theorem chat_updates_stats:
  "(completed (fst (chat w request t_start t_end s)) \<longrightarrow>
      total_queries (stats (snd (chat w request t_start t_end s)))
        = total_queries (stats s) + 1
    \<and> avg_response_time (stats (snd (chat w request t_start t_end s)))
        = (avg_response_time (stats s) + (t_end - t_start)) / 2)
   \<and> (last (fst (websocket_endpoint w [(data, t_start, t_end)] s)) = SendText ''[DONE]'' \<longrightarrow>
      total_queries (stats (snd (websocket_endpoint w [(data, t_start, t_end)] s)))
        = total_queries (stats s) + 1
    \<and> avg_response_time (stats (snd (websocket_endpoint w [(data, t_start, t_end)] s)))
        = (avg_response_time (stats s) + (t_end - t_start)) / 2)
   \<and> (last (fst (websocket_endpoint w (earlier @ [(data, t_start, t_end)]) s))
         = SendText ''[DONE]'' \<longrightarrow>
      total_queries (stats (snd (websocket_endpoint w (earlier @ [(data, t_start, t_end)]) s)))
        = total_queries (stats (snd (websocket_endpoint w earlier s))) + 1
    \<and> avg_response_time
         (stats (snd (websocket_endpoint w (earlier @ [(data, t_start, t_end)]) s)))
        = (avg_response_time (stats (snd (websocket_endpoint w earlier s)))
           + (t_end - t_start)) / 2)"
proof (cases "get_rag_pipeline w s")
  case (Inl e)
  then show ?thesis by (simp add: chat_def websocket_endpoint_def)
next
  case (Inr ps)
  obtain p s0 where ps: "ps = (p, s0)" by (cases ps)
  have st: "stats s0 = stats s"
    using Inr ps by (simp add: get_rag_pipeline_stats)
  have a: "completed (fst (chat w request t_start t_end s)) \<longrightarrow>
      total_queries (stats (snd (chat w request t_start t_end s)))
        = total_queries (stats s) + 1
    \<and> avg_response_time (stats (snd (chat w request t_start t_end s)))
        = (avg_response_time (stats s) + (t_end - t_start)) / 2"
    using Inr ps st
    by (auto simp: chat_def Let_def count_query_def record_duration_def
        split: prod.splits option.splits sum.splits)
  have b: "last (fst (websocket_endpoint w [(data, t_start, t_end)] s)) = SendText ''[DONE]'' \<longrightarrow>
      total_queries (stats (snd (websocket_endpoint w [(data, t_start, t_end)] s)))
        = total_queries (stats s) + 1
    \<and> avg_response_time (stats (snd (websocket_endpoint w [(data, t_start, t_end)] s)))
        = (avg_response_time (stats s) + (t_end - t_start)) / 2"
    using Inr ps st
    by (auto simp: websocket_endpoint_def count_query_def record_duration_def
        split: prod.splits option.splits)
  have c: "total_queries (stats (snd (websocket_endpoint w (earlier @ [(data, t_start, t_end)]) s)))
        = total_queries (stats (snd (websocket_endpoint w earlier s))) + 1
    \<and> avg_response_time
         (stats (snd (websocket_endpoint w (earlier @ [(data, t_start, t_end)]) s)))
        = (avg_response_time (stats (snd (websocket_endpoint w earlier s)))
           + (t_end - t_start)) / 2"
    if fin: "last (fst (websocket_endpoint w (earlier @ [(data, t_start, t_end)]) s))
         = SendText ''[DONE]''"
  proof -
    let ?msgs = "earlier @ [(data, t_start, t_end)]"
    have ev: "fst (websocket_endpoint w ?msgs s) = Accept # fst (ws_loop w p ?msgs s0)"
      using Inr ps by (simp add: websocket_endpoint_def case_prod_unfold)
    obtain m ms where l: "?msgs = m # ms" by (cases ?msgs) auto
    have ne: "fst (ws_loop w p ?msgs s0) \<noteq> []"
      unfolding l by (rule ws_loop_nonempty)
    have la: "last (fst (ws_loop w p ?msgs s0)) = SendText ''[DONE]''"
      using fin ne unfolding ev by simp
    have all: "\<forall>m \<in> set ?msgs. snd (get_response_stream w p (fst m)) = None"
    proof (rule ccontr)
      assume "\<not> ?thesis"
      then have "last (fst (ws_loop w p ?msgs s0)) = Close" by (rule ws_loop_failed)
      with la show False by simp
    qed
    then have pre: "\<forall>m \<in> set earlier. snd (get_response_stream w p (fst m)) = None"
      and cur: "snd (get_response_stream w p data) = None"
      by simp_all
    let ?s1 = "snd (ws_loop w p earlier s0)"
    have s1: "snd (websocket_endpoint w earlier s) = ?s1"
      using Inr ps by (simp add: websocket_endpoint_def case_prod_unfold)
    have "snd (ws_loop w p ?msgs s0) = snd (ws_loop w p [(data, t_start, t_end)] ?s1)"
      using pre by (rule ws_loop_append)
    also have "\<dots> = record_duration (t_end - t_start) (count_query ?s1)"
      using cur by (rule ws_loop_turn)
    finally have lp: "snd (ws_loop w p ?msgs s0)
                    = record_duration (t_end - t_start) (count_query ?s1)" .
    have s2: "snd (websocket_endpoint w ?msgs s)
            = record_duration (t_end - t_start) (count_query ?s1)"
      using Inr ps by (simp add: websocket_endpoint_def case_prod_unfold lp)
    show ?thesis
      unfolding s1 s2 by (simp add: count_query_def record_duration_def)
  qed
  show ?thesis using a b c by blast
qed

text \<open>
  A first request that takes three seconds, and a second turn of one second on the same
  connection.
\<close>

theorem chat_updates_stats_witness:
  "completed (fst (chat ex_world \<lparr>message = ''Hello'', stream = True\<rparr> 10 13 ex_state))
   \<and> last (fst (websocket_endpoint ex_world [(''Hello'', 10, 13)] ex_state)) = SendText ''[DONE]''
   \<and> total_queries (stats (snd (chat ex_world \<lparr>message = ''Hello'', stream = True\<rparr> 10 13 ex_state))) = 1
   \<and> avg_response_time (stats (snd (chat ex_world \<lparr>message = ''Hello'', stream = True\<rparr> 10 13 ex_state))) = 3 / 2
   \<and> total_queries (stats (snd (websocket_endpoint ex_world [(''Hello'', 10, 13)] ex_state))) = 1
   \<and> avg_response_time (stats (snd (websocket_endpoint ex_world [(''Hello'', 10, 13)] ex_state))) = 3 / 2
   \<and> last (fst (websocket_endpoint ex_world ([(''Hello'', 10, 13)] @ [(''Projects?'', 20, 21)])
                 ex_state)) = SendText ''[DONE]''
   \<and> total_queries (stats (snd (websocket_endpoint ex_world
        ([(''Hello'', 10, 13)] @ [(''Projects?'', 20, 21)]) ex_state))) = 2
   \<and> avg_response_time (stats (snd (websocket_endpoint ex_world
        ([(''Hello'', 10, 13)] @ [(''Projects?'', 20, 21)]) ex_state))) = 5 / 4"
proof -
  have p: "get_rag_pipeline ex_world ex_state = Inr (\<lparr>pid = 0, p_index_name = ''greyfang''\<rparr>, ex_state)"
    by (simp add: get_rag_pipeline_def ex_state_def)
  have g: "get_response_stream ex_world \<lparr>pid = 0, p_index_name = ''greyfang''\<rparr> q
       = ([''Hi'', '' there''], None)" for q
    by (simp add: get_response_stream_def retrieve_def ex_world_def)
  have h1: "completed (fst (chat ex_world \<lparr>message = ''Hello'', stream = True\<rparr> 10 13 ex_state))"
    by (simp add: chat_def p g Let_def)
  have h2: "last (fst (websocket_endpoint ex_world [(''Hello'', 10, 13)] ex_state)) = SendText ''[DONE]''"
    by (simp add: websocket_endpoint_def p g)
  have h3: "last (fst (websocket_endpoint ex_world
               ([(''Hello'', 10, 13)] @ [(''Projects?'', 20, 21)]) ex_state)) = SendText ''[DONE]''"
    by (simp add: websocket_endpoint_def p g)
  have t: "total_queries (stats ex_state) = 0" "avg_response_time (stats ex_state) = 0"
    by (simp_all add: ex_state_def)
  note first = chat_updates_stats
    [of ex_world "\<lparr>message = ''Hello'', stream = True\<rparr>" 10 13 ex_state "''Hello''" "[]"]
  note second = chat_updates_stats
    [of ex_world "\<lparr>message = ''Hello'', stream = True\<rparr>" 20 21 ex_state "''Projects?''"
        "[(''Hello'', 10, 13)]"]
  have one: "total_queries (stats (snd (websocket_endpoint ex_world [(''Hello'', 10, 13)] ex_state))) = 1"
    "avg_response_time (stats (snd (websocket_endpoint ex_world [(''Hello'', 10, 13)] ex_state))) = 3 / 2"
    using h2 t first by simp_all
  have two: "total_queries (stats (snd (websocket_endpoint ex_world
        ([(''Hello'', 10, 13)] @ [(''Projects?'', 20, 21)]) ex_state))) = 2"
    "avg_response_time (stats (snd (websocket_endpoint ex_world
        ([(''Hello'', 10, 13)] @ [(''Projects?'', 20, 21)]) ex_state))) = 5 / 4"
    using h3 one second by simp_all
  show ?thesis
    using h1 h2 h3 t first one two by simp
qed

subsection \<open>The socket\<close>

lemma ws_loop_frames:
  "\<forall>m \<in> set incoming. snd (get_response_stream w pipeline (fst m)) = None \<Longrightarrow>
   fst (ws_loop w pipeline incoming s) = concat (map (turn_frames w pipeline) incoming)"
proof (induction incoming arbitrary: s)
  case Nil
  then show ?case by simp
next
  case (Cons m ms)
  obtain d t0 t1 where m: "m = (d, t0, t1)" by (cases m)
  obtain chunks where g: "get_response_stream w pipeline d = (chunks, None)"
    using Cons.prems m by (cases "get_response_stream w pipeline d") auto
  have ih: "fst (ws_loop w pipeline ms s') = concat (map (turn_frames w pipeline) ms)" for s'
    using Cons by simp
  have hd: "turn_frames w pipeline m = Receive d # map SendText chunks @ [SendText ''[DONE]'']"
    by (simp add: turn_frames_def m g)
  show ?case
    unfolding list.map concat.simps hd
    by (simp add: m g ih case_prod_unfold)
qed

text \<open>
  Claim C9. When the answer to each message streams to its end, the socket carries, after
  the accept, for each message in order: its receipt, its fragments as text frames, and
  one \<^verbatim>\<open>[DONE]\<close> frame; the next message is received only after that frame.
\<close>

theorem websocket_turns:
  assumes "get_rag_pipeline w s = Inr (pipeline, s0)"
    and "\<forall>m \<in> set incoming. snd (get_response_stream w pipeline (fst m)) = None"
  shows "fst (websocket_endpoint w incoming s)
         = Accept # concat (map (\<lambda>m. Receive (fst m)
                                  # map SendText (fst (get_response_stream w pipeline (fst m)))
                                  @ [SendText ''[DONE]'']) incoming)"
proof -
  have "fst (ws_loop w pipeline incoming s0) = concat (map (turn_frames w pipeline) incoming)"
    using assms(2) by (rule ws_loop_frames)
  then show ?thesis
    using assms(1) by (simp add: websocket_endpoint_def turn_frames_def [abs_def] case_prod_unfold)
qed

text \<open>Two messages on one connection.\<close>

theorem websocket_turns_witness:
  "get_rag_pipeline ex_world ex_state = Inr (\<lparr>pid = 0, p_index_name = ''greyfang''\<rparr>, ex_state)
   \<and> snd (get_response_stream ex_world \<lparr>pid = 0, p_index_name = ''greyfang''\<rparr> ''Hello'') = None
   \<and> snd (get_response_stream ex_world \<lparr>pid = 0, p_index_name = ''greyfang''\<rparr> ''Projects?'')
       = None
   \<and> fst (websocket_endpoint ex_world [(''Hello'', 10, 13), (''Projects?'', 20, 21)] ex_state)
     = [Accept,
        Receive ''Hello'', SendText ''Hi'', SendText '' there'', SendText ''[DONE]'',
        Receive ''Projects?'', SendText ''Hi'', SendText '' there'', SendText ''[DONE]'']"
proof -
  have p: "get_rag_pipeline ex_world ex_state = Inr (\<lparr>pid = 0, p_index_name = ''greyfang''\<rparr>, ex_state)"
    by (simp add: get_rag_pipeline_def ex_state_def)
  have g: "get_response_stream ex_world \<lparr>pid = 0, p_index_name = ''greyfang''\<rparr> q
       = ([''Hi'', '' there''], None)" for q
    by (simp add: get_response_stream_def retrieve_def ex_world_def)
  have h: "\<forall>m \<in> set [(''Hello'', 10::real, 13::real), (''Projects?'', 20, 21)].
        snd (get_response_stream ex_world \<lparr>pid = 0, p_index_name = ''greyfang''\<rparr> (fst m)) = None"
    by (simp add: g)
  show ?thesis
    using p h websocket_turns [OF p h] by (simp add: g)
qed

subsection \<open>Reindex on success\<close>

text \<open>
  Claim C3, as stated, has the handler discard the singleton and leave its recreation to
  the next use. In the example the Index Builder succeeds, and on return from the handler
  the global already holds a new instance, constructed inside the handler: it is not
  \<open>None\<close>, and the count of constructed instances has grown by one.
\<close>

theorem reindex_lazy_counterexample:
  "fst (initialize_pinecone ex_world)
   \<and> rag_pipeline (snd (reindex ex_world ''2026-01-01 00:00:00'' ex_state))
       = Some \<lparr>pid = 1, p_index_name = ''greyfang''\<rparr>
   \<and> rag_pipeline (snd (reindex ex_world ''2026-01-01 00:00:00'' ex_state)) \<noteq> None
   \<and> instances (snd (reindex ex_world ''2026-01-01 00:00:00'' ex_state))
       = instances ex_state + 1"
proof -
  have i: "fst (initialize_pinecone ex_world)"
    by (simp add: initialize_pinecone_ready [OF ex_world_ready])
  have c: "RAGPipeline ex_world ex_state
         = Inr (\<lparr>pid = 1, p_index_name = ''greyfang''\<rparr>, ex_state\<lparr>instances := 2\<rparr>)"
    by (simp add: RAGPipeline_def ex_world_def ex_state_def)
  show ?thesis
    using i by (simp add: reindex_def c) (simp add: ex_state_def)
qed

lemma ex_world_versions_ready: "ready_to_upload ex_world_versions"
  using ex_world_ready
  by (simp add: ready_to_upload_def ex_world_versions_def split: sum.splits)

text \<open>
  Claim C3, amended. \<^verbatim>\<open>POST /api/reindex\<close> runs the Index Builder in the handler. When it
  reports success and the construction of a pipeline succeeds, the handler answers with
  the success message, has constructed one new \<^verbatim>\<open>RAGPipeline\<close> and stored it in the
  global, so that the next \<^verbatim>\<open>get_rag_pipeline\<close> returns that instance without
  constructing another; the instance differs from a singleton that was there before;
  \<^verbatim>\<open>index_status\<close> and \<^verbatim>\<open>last_reindex_time\<close> are set; a \<^verbatim>\<open>POST /api/chat\<close> request
  handled next, streamed or not, is answered by the new instance and leaves it in place;
  and a socket connection accepted next runs its loop with the new instance. When the
  Index Builder reports failure, the handler raises the HTTP 500 error.
\<close>

theorem reindex_replaces_pipeline:
  "(fst (initialize_pinecone w) \<and> pipeline_init w = None \<longrightarrow>
      fst (reindex w now s) = Message ''Pinecone index rebuilt successfully''
    \<and> rag_pipeline (snd (reindex w now s))
        = Some \<lparr>pid = instances s, p_index_name = PINECONE_INDEX_NAME w\<rparr>
    \<and> instances (snd (reindex w now s)) = instances s + 1
    \<and> get_rag_pipeline w (snd (reindex w now s))
        = Inr (\<lparr>pid = instances s, p_index_name = PINECONE_INDEX_NAME w\<rparr>,
               snd (reindex w now s))
    \<and> (\<forall>old. rag_pipeline s = Some old \<and> pid old < instances s
          \<longrightarrow> rag_pipeline (snd (reindex w now s)) \<noteq> Some old)
    \<and> index_status (stats (snd (reindex w now s))) = ''Ready (Pinecone)''
    \<and> last_reindex_time (stats (snd (reindex w now s))) = Some now
    \<and> fst (chat w request t_start t_end (snd (reindex w now s)))
        = (if stream request
           then (case get_response_stream w
                        \<lparr>pid = instances s, p_index_name = PINECONE_INDEX_NAME w\<rparr>
                        (message request) of
                   (chunks, e) \<Rightarrow> StreamingResponse chunks e)
           else (case get_response w
                        \<lparr>pid = instances s, p_index_name = PINECONE_INDEX_NAME w\<rparr>
                        (message request) of
                   Inl e \<Rightarrow> Raised e
                 | Inr response \<Rightarrow> Response response))
    \<and> rag_pipeline (snd (chat w request t_start t_end (snd (reindex w now s))))
        = Some \<lparr>pid = instances s, p_index_name = PINECONE_INDEX_NAME w\<rparr>
    \<and> fst (websocket_endpoint w incoming (snd (reindex w now s)))
        = Accept # fst (ws_loop w \<lparr>pid = instances s, p_index_name = PINECONE_INDEX_NAME w\<rparr>
                          incoming (snd (reindex w now s))))
   \<and> (\<not> fst (initialize_pinecone w) \<longrightarrow>
      fst (reindex w now s) = HTTPException 500 ''Failed to rebuild Pinecone index'')"
proof -
  let ?new = "\<lparr>pid = instances s, p_index_name = PINECONE_INDEX_NAME w\<rparr>"
  let ?s' = "snd (reindex w now s)"
  have fail: "\<not> fst (initialize_pinecone w) \<longrightarrow>
      fst (reindex w now s) = HTTPException 500 ''Failed to rebuild Pinecone index''"
    by (simp add: reindex_def)
  have ok: "fst (reindex w now s) = Message ''Pinecone index rebuilt successfully''
    \<and> rag_pipeline ?s' = Some ?new
    \<and> instances ?s' = instances s + 1
    \<and> get_rag_pipeline w ?s' = Inr (?new, ?s')
    \<and> (\<forall>old. rag_pipeline s = Some old \<and> pid old < instances s
          \<longrightarrow> rag_pipeline ?s' \<noteq> Some old)
    \<and> index_status (stats ?s') = ''Ready (Pinecone)''
    \<and> last_reindex_time (stats ?s') = Some now"
    if "fst (initialize_pinecone w)" "pipeline_init w = None"
    using that by (auto simp: reindex_def RAGPipeline_def get_rag_pipeline_def)
  have use: "fst (chat w request t_start t_end ?s')
        = (if stream request
           then (case get_response_stream w ?new (message request) of
                   (chunks, e) \<Rightarrow> StreamingResponse chunks e)
           else (case get_response w ?new (message request) of
                   Inl e \<Rightarrow> Raised e
                 | Inr response \<Rightarrow> Response response))
    \<and> rag_pipeline (snd (chat w request t_start t_end ?s')) = Some ?new
    \<and> fst (websocket_endpoint w incoming ?s') = Accept # fst (ws_loop w ?new incoming ?s')"
    if "fst (initialize_pinecone w)" "pipeline_init w = None"
  proof -
    have g: "get_rag_pipeline w ?s' = Inr (?new, ?s')" and r: "rag_pipeline ?s' = Some ?new"
      using ok [OF that] by simp_all
    have c1: "fst (chat w request t_start t_end ?s')
        = (if stream request
           then (case get_response_stream w ?new (message request) of
                   (chunks, e) \<Rightarrow> StreamingResponse chunks e)
           else (case get_response w ?new (message request) of
                   Inl e \<Rightarrow> Raised e
                 | Inr response \<Rightarrow> Response response))"
      by (simp add: chat_def g Let_def split: prod.splits option.splits sum.splits)
    have c2: "rag_pipeline (snd (chat w request t_start t_end ?s')) = Some ?new"
      using r
      by (simp add: chat_def g Let_def count_query_def record_duration_def
          split: prod.splits option.splits sum.splits)
    have c3: "fst (websocket_endpoint w incoming ?s') = Accept # fst (ws_loop w ?new incoming ?s')"
      by (simp add: websocket_endpoint_def g case_prod_unfold)
    show ?thesis using c1 c2 c3 by blast
  qed
  show ?thesis using fail ok use by blast
qed

text \<open>
  The example deployment, the same deployment with an empty API key, and a deployment
  whose model answers \<^verbatim>\<open>old\<close> through the first instance and \<^verbatim>\<open>new\<close> through any later one.
\<close>

theorem reindex_replaces_pipeline_witness:
  "fst (initialize_pinecone ex_world) \<and> pipeline_init ex_world = None
   \<and> rag_pipeline ex_state = Some \<lparr>pid = 0, p_index_name = ''greyfang''\<rparr>
   \<and> get_rag_pipeline ex_world (snd (reindex ex_world ''2026-01-01 00:00:00'' ex_state))
       = Inr (\<lparr>pid = 1, p_index_name = ''greyfang''\<rparr>,
              snd (reindex ex_world ''2026-01-01 00:00:00'' ex_state))
   \<and> \<not> fst (initialize_pinecone (ex_world\<lparr>PINECONE_API_KEY := Some []\<rparr>))
   \<and> fst (reindex (ex_world\<lparr>PINECONE_API_KEY := Some []\<rparr>) ''2026-01-01 00:00:00'' ex_state)
       = HTTPException 500 ''Failed to rebuild Pinecone index''
   \<and> fst (initialize_pinecone ex_world_versions) \<and> pipeline_init ex_world_versions = None
   \<and> fst (chat ex_world_versions \<lparr>message = ''Hello'', stream = True\<rparr> 10 12 ex_state)
       = StreamingResponse [''old''] None
   \<and> fst (chat ex_world_versions \<lparr>message = ''Hello'', stream = True\<rparr> 10 12
            (snd (reindex ex_world_versions ''2026-01-01 00:00:00'' ex_state)))
       = StreamingResponse [''new''] None
   \<and> fst (chat ex_world_versions \<lparr>message = ''Hello'', stream = False\<rparr> 10 12
            (snd (reindex ex_world_versions ''2026-01-01 00:00:00'' ex_state)))
       = Response ''new''
   \<and> fst (websocket_endpoint ex_world_versions [(''Hello'', 10, 12)]
            (snd (reindex ex_world_versions ''2026-01-01 00:00:00'' ex_state)))
       = [Accept, Receive ''Hello'', SendText ''new'', SendText ''[DONE]'']"
proof -
  have i: "fst (initialize_pinecone ex_world)"
    by (simp add: initialize_pinecone_ready [OF ex_world_ready])
  have p: "pipeline_init ex_world = None" "PINECONE_INDEX_NAME ex_world = ''greyfang''"
    by (simp_all add: ex_world_def)
  have s: "rag_pipeline ex_state = Some \<lparr>pid = 0, p_index_name = ''greyfang''\<rparr>"
    "instances ex_state = 1"
    by (simp_all add: ex_state_def)
  have n: "\<not> fst (initialize_pinecone (ex_world\<lparr>PINECONE_API_KEY := Some []\<rparr>))"
    by (simp add: initialize_pinecone_def)
  have iv: "fst (initialize_pinecone ex_world_versions)"
    by (simp add: initialize_pinecone_ready [OF ex_world_versions_ready])
  have pv: "pipeline_init ex_world_versions = None"
    "PINECONE_INDEX_NAME ex_world_versions = ''greyfang''"
    by (simp_all add: ex_world_versions_def ex_world_def)
  have gs: "get_response_stream ex_world_versions \<lparr>pid = k, p_index_name = ''greyfang''\<rparr> q
          = ([if k = 0 then ''old'' else ''new''], None)" for k q
    by (simp add: get_response_stream_def retrieve_def ex_world_versions_def ex_world_def)
  have gr: "get_response ex_world_versions \<lparr>pid = k, p_index_name = ''greyfang''\<rparr> q
          = Inr (if k = 0 then ''old'' else ''new'')" for k q
    by (simp add: get_response_def retrieve_def bind_e_def ex_world_versions_def ex_world_def)
  have before: "fst (chat ex_world_versions \<lparr>message = ''Hello'', stream = True\<rparr> 10 12 ex_state)
       = StreamingResponse [''old''] None"
    by (simp add: chat_def get_rag_pipeline_def ex_state_def gs Let_def)
  note a = reindex_replaces_pipeline
    [of ex_world "''2026-01-01 00:00:00''" ex_state "\<lparr>message = ''Hello'', stream = True\<rparr>"
        10 12 "[]"]
  note b = reindex_replaces_pipeline
    [of "ex_world\<lparr>PINECONE_API_KEY := Some []\<rparr>" "''2026-01-01 00:00:00''" ex_state
        "\<lparr>message = ''Hello'', stream = True\<rparr>" 10 12 "[]"]
  note c = reindex_replaces_pipeline
    [of ex_world_versions "''2026-01-01 00:00:00''" ex_state
        "\<lparr>message = ''Hello'', stream = True\<rparr>" 10 12 "[(''Hello'', 10, 12)]"]
  note d = reindex_replaces_pipeline
    [of ex_world_versions "''2026-01-01 00:00:00''" ex_state
        "\<lparr>message = ''Hello'', stream = False\<rparr>" 10 12 "[]"]
  have after1: "fst (chat ex_world_versions \<lparr>message = ''Hello'', stream = True\<rparr> 10 12
            (snd (reindex ex_world_versions ''2026-01-01 00:00:00'' ex_state)))
       = StreamingResponse [''new''] None"
    using c iv pv s by (simp add: gs)
  have after2: "fst (chat ex_world_versions \<lparr>message = ''Hello'', stream = False\<rparr> 10 12
            (snd (reindex ex_world_versions ''2026-01-01 00:00:00'' ex_state)))
       = Response ''new''"
    using d iv pv s by (simp add: gr)
  have after3: "fst (websocket_endpoint ex_world_versions [(''Hello'', 10, 12)]
            (snd (reindex ex_world_versions ''2026-01-01 00:00:00'' ex_state)))
       = [Accept, Receive ''Hello'', SendText ''new'', SendText ''[DONE]'']"
    using c iv pv s by (simp add: gs)
  show ?thesis
    using i p s n iv pv before after1 after2 after3 a b by simp
qed

subsection \<open>Document Loader\<close>



lemma make_document_not_dict:
  "\<not> is_dict data \<Longrightarrow> make_document L filename data = Inl AttributeError"
  by (cases data) (simp_all add: make_document_def content_parts_def bind_e_def)

text \<open>
  Claim C6. A file whose JSON value is the list \<^verbatim>\<open>[1, 2]\<close> parses and holds none of the
  four sections; the fallback text is computed, then \<^verbatim>\<open>data.get\<close> raises
  \<^verbatim>\<open>AttributeError\<close> on the list, the \<^verbatim>\<open>except\<close> clause catches it, and the Loader
  returns no Document for the file.
\<close>

theorem load_json_data_top_level_list:
  "\<not> has_key (JArr [JNum 1, JNum 2]) ''personal_profile''
   \<and> \<not> has_key (JArr [JNum 1, JNum 2]) ''professional_experience''
   \<and> \<not> has_key (JArr [JNum 1, JNum 2]) ''projects''
   \<and> \<not> has_key (JArr [JNum 1, JNum 2]) ''skills''
   \<and> make_document L ''notes.json'' (JArr [JNum 1, JNum 2]) = Inl AttributeError
   \<and> load_json_data L (Some [(''notes.json'', Inr (JArr [JNum 1, JNum 2]))]) = []"
  by (simp add: make_document_not_dict load_json_data_def load_file_def bind_e_def endswith_def)





lemma py_get_object: "py_get (JObj kvs) k d = Inr (field_or (JObj kvs) k d)"
  by simp





















end
